theory Spec2Isabelle
  imports Main
begin

section \<open>The transcript reducer of the document terminal viewer\<close>

text \<open>
  This theory embeds \<^verbatim>\<open>document-terminal-viewer.reducer.js\<close>: the handlers of the
  kernel's protocol messages (\<^verbatim>\<open>responseTypeHandlers\<close>), the router
  \<^verbatim>\<open>jupyterResponseDetected\<close> and the handlers of the direct commands.

  The state is a seamless-immutable document; every method the reducer calls on it
  (\<^verbatim>\<open>set\<close>, \<^verbatim>\<open>setIn\<close>, \<^verbatim>\<open>update\<close>, \<^verbatim>\<open>updateIn\<close>, \<^verbatim>\<open>without\<close>,
  \<^verbatim>\<open>asMutable\<close>) returns a new value and leaves its receiver as it was, so the
  document is a record and each method a functional update. A JavaScript \<^verbatim>\<open>throw\<close>
  is the left summand of a sum type, the value \<^verbatim>\<open>undefined\<close> is \<open>None\<close>.

  An object answers \<^verbatim>\<open>obj[name]\<close> for its keys and for the names it has without their
  being keys: those of \<^verbatim>\<open>Object.prototype\<close>, and the methods that the immutable
  library attaches to every object of a document. The reducer reads \<^verbatim>\<open>responses\<close>,
  \<^verbatim>\<open>actives\<close> and its table of handlers in this way, so these names are part of the
  model.
\<close>

subsection \<open>Values\<close>

datatype js_error = TypeError

text \<open>
  The values that are not documents: those stored in an active entry's \<^verbatim>\<open>errors\<close>
  array, and those that a member of \<^verbatim>\<open>Object.prototype\<close> returns when it is called
  as a handler (\<open>JHandlers\<close> is the object \<^verbatim>\<open>responseTypeHandlers\<close> itself).
\<close>

datatype jsval = JUndefined | JString string | JArray "jsval list" | JBoolean bool | JHandlers

text \<open>What a reducer returns: a document, or a value that is none.\<close>

datatype 's returned = Document 's | Value jsval

definition js_string :: "string option \<Rightarrow> jsval" where
  "js_string s = (case s of None \<Rightarrow> JUndefined | Some t \<Rightarrow> JString t)"

text \<open>
  The string a value that is a string or \<^verbatim>\<open>undefined\<close> is converted to, as the key
  of a property (\<^verbatim>\<open>obj[undefined]\<close> reads the property \<^verbatim>\<open>"undefined"\<close>) and as an
  operand of \<^verbatim>\<open>+\<close> on strings.
\<close>

definition js_to_string :: "string option \<Rightarrow> string" where
  "js_to_string k = (case k of None \<Rightarrow> ''undefined'' | Some s \<Rightarrow> s)"

text \<open>Truthiness of a value that is a string or \<^verbatim>\<open>undefined\<close>.\<close>

definition truthy :: "string option \<Rightarrow> bool" where
  "truthy s = (case s of None \<Rightarrow> False | Some t \<Rightarrow> t \<noteq> [])"

type_synonym mime_bundle = "(string \<times> string) list"

subsection \<open>Properties that are not keys\<close>

text \<open>The names of the members of \<^verbatim>\<open>Object.prototype\<close>.\<close>

definition object_prototype :: "string list" where
  "object_prototype =
     [''constructor'', ''__defineGetter__'', ''__defineSetter__'', ''hasOwnProperty'',
      ''__lookupGetter__'', ''__lookupSetter__'', ''isPrototypeOf'', ''propertyIsEnumerable'',
      ''toString'', ''valueOf'', ''__proto__'', ''toLocaleString'']"

text \<open>
  A name that an object of the document has without its being a key. The immutable
  library is not part of the repository: the set \<open>methods\<close> of the names it attaches to
  an object (among them \<^verbatim>\<open>set\<close> and \<^verbatim>\<open>without\<close>, which the reducer calls) is a
  parameter.
\<close>

definition inherited :: "string set \<Rightarrow> string \<Rightarrow> bool" where
  "inherited methods key = (key \<in> set object_prototype \<or> key \<in> methods)"

text \<open>
  Whether \<^verbatim>\<open>obj[key]\<close> is truthy, for an object of the document whose entries are
  objects: an entry is truthy, and so is every member of \<^verbatim>\<open>Object.prototype\<close> and
  every attached method.
\<close>

definition has_property :: "string set \<Rightarrow> (string \<rightharpoonup> 'a) \<Rightarrow> string \<Rightarrow> bool" where
  "has_property methods obj key = (obj key \<noteq> None \<or> inherited methods key)"

text \<open>
  What \<^verbatim>\<open>responseTypeHandlers[name](state, result)\<close> does for a member of
  \<^verbatim>\<open>Object.prototype\<close>, called on the table with a document and a message:
  \<^verbatim>\<open>constructor\<close> is \<^verbatim>\<open>Object\<close>, which returns the object it is given;
  \<^verbatim>\<open>toString\<close> and \<^verbatim>\<open>toLocaleString\<close> return \<^verbatim>\<open>"[object Object]"\<close>;
  \<^verbatim>\<open>valueOf\<close> returns the table; \<^verbatim>\<open>hasOwnProperty\<close>, \<^verbatim>\<open>isPrototypeOf\<close> and
  \<^verbatim>\<open>propertyIsEnumerable\<close> return \<^verbatim>\<open>false\<close>; \<^verbatim>\<open>__lookupGetter__\<close> and
  \<^verbatim>\<open>__lookupSetter__\<close> return \<^verbatim>\<open>undefined\<close>; \<^verbatim>\<open>__defineGetter__\<close> and
  \<^verbatim>\<open>__defineSetter__\<close> throw, the message being no function; \<^verbatim>\<open>__proto__\<close> is an
  object and no function, and calling it throws.
\<close>

definition inherited_call :: "string \<Rightarrow> 's \<Rightarrow> js_error + 's returned" where
  "inherited_call name state =
     (if name = ''constructor'' then Inr (Document state)
      else if name = ''toString'' \<or> name = ''toLocaleString''
        then Inr (Value (JString ''[object Object]''))
      else if name = ''valueOf'' then Inr (Value JHandlers)
      else if name = ''hasOwnProperty'' \<or> name = ''isPrototypeOf'' \<or>
              name = ''propertyIsEnumerable''
        then Inr (Value (JBoolean False))
      else if name = ''__lookupGetter__'' \<or> name = ''__lookupSetter__''
        then Inr (Value JUndefined)
      else Inl TypeError)"

subsection \<open>The data model\<close>

text \<open>
  A history item; the constructor is the item's \<^verbatim>\<open>type\<close> tag. The fields are, in
  this order: \<^verbatim>\<open>source\<close> and \<^verbatim>\<open>html\<close> of a \<^verbatim>\<open>text\<close> item; \<^verbatim>\<open>data\<close> of an
  \<^verbatim>\<open>annotation\<close>; \<^verbatim>\<open>name\<close>, \<^verbatim>\<open>value\<close>, \<^verbatim>\<open>traceback\<close> and
  \<^verbatim>\<open>stacktrace\<close> of a \<^verbatim>\<open>pythonError\<close>; \<^verbatim>\<open>matches\<close> of an
  \<^verbatim>\<open>autocomplete\<close> item.
\<close>

datatype item =
    Text "string option" string
  | Annotation mime_bundle
  | PythonError "string option" "string option" "string list" "string list"
  | PageBreak
  | Autocomplete "string list"

fun item_type :: "item \<Rightarrow> string" where
  "item_type (Text source html) = ''text''"
| "item_type (Annotation data) = ''annotation''"
| "item_type (PythonError name val traceback stacktrace) = ''pythonError''"
| "item_type PageBreak = ''pageBreak''"
| "item_type (Autocomplete matches) = ''autocomplete''"

record active =
  errors :: "jsval list option"

definition empty_object :: active where
  "empty_object = \<lparr>errors = None\<rparr>"

text \<open>
  The document. \<^verbatim>\<open>items\<close> and \<^verbatim>\<open>actives\<close> are dereferenced by the handlers
  without a test, \<^verbatim>\<open>responses\<close> is tested for before it is used. The fields of the
  command line's reducer, which shares the document, are the record's extension.
\<close>

record 'n state =
  items :: "item list"
  actives :: "string \<rightharpoonup> active"
  responses :: "(string \<rightharpoonup> unit) option"
  fontSize :: "'n option"
  cwd :: "string option"
  promptLabel :: "string option"
  continueLabel :: "string option"

text \<open>
  The nested message of a \<^verbatim>\<open>JUPYTER_RESPONSE\<close> action, read with \<^verbatim>\<open>_.get\<close>: a
  missing field, at any depth of the path, reads as \<^verbatim>\<open>undefined\<close>.
\<close>

record message =
  msg_type :: "string option"
  parent_header_msg_id :: "string option"
  content_data :: "mime_bundle option"
  content_ename :: "string option"
  content_evalue :: "string option"
  content_traceback :: "string list option"
  content_name :: "string option"
  content_code :: "string option"
  content_text :: "string option"
  content_execution_state :: "string option"

text \<open>
  \<^verbatim>\<open>services/text-util\<close> is not part of the reducer's file; it is a parameter.
  \<^verbatim>\<open>fromAsciiToHtml\<close> is handed whatever the message holds, \<^verbatim>\<open>undefined\<close>
  included, and may throw. \<^verbatim>\<open>getAsciiToHtmlStream\<close> returns a converter with a state
  of its own, \<^verbatim>\<open>toHtml\<close> converts one line and moves that state on.
\<close>

record 'c textUtil =
  fromAsciiToHtml :: "string option \<Rightarrow> js_error + string"
  getAsciiToHtmlStream :: "'c"
  toHtml :: "'c \<Rightarrow> string \<Rightarrow> string \<times> 'c"

subsection \<open>History log\<close>

definition addHistoryItem :: "('n, 'z) state_scheme \<Rightarrow> item \<Rightarrow> ('n, 'z) state_scheme" where
  "addHistoryItem state item = state\<lparr>items := items state @ [item]\<rparr>"

text \<open>\<^verbatim>\<open>traceback.map(line => converter.toHtml(line))\<close>, the converter's state threaded.\<close>

fun map_toHtml :: "('c \<Rightarrow> string \<Rightarrow> string \<times> 'c) \<Rightarrow> 'c \<Rightarrow> string list \<Rightarrow> string list" where
  "map_toHtml f converter [] = []"
| "map_toHtml f converter (line # lines) =
     (case f converter line of (html, converter') \<Rightarrow> html # map_toHtml f converter' lines)"

subsection \<open>Handlers of the protocol messages\<close>

definition display_data ::
  "('n, 'z) state_scheme \<Rightarrow> message \<Rightarrow> js_error + ('n, 'z) state_scheme" where
  "display_data state result =
     (case content_data result of
        Some data \<Rightarrow> Inr (addHistoryItem state (Annotation data))
      | None \<Rightarrow> Inr state)"

text \<open>
  The function handed to \<^verbatim>\<open>updateIn\<close> by the \<^verbatim>\<open>error\<close> handler. It builds the
  longer array and calls \<^verbatim>\<open>active.set\<close>, which returns a new object; that object
  is dropped and the function returns \<^verbatim>\<open>active\<close>. \<^verbatim>\<open>concat\<close> spreads its array
  argument, so the longer array has three more elements.
\<close>

definition error_updater ::
  "string option \<Rightarrow> string option \<Rightarrow> string list \<Rightarrow> active \<Rightarrow> active" where
  "error_updater name val traceback active =
     (let errors = (case errors active of Some es \<Rightarrow> es | None \<Rightarrow> []);
          dropped = active\<lparr>errors :=
            Some (errors @ [js_string name, js_string val, JArray (map JString traceback)])\<rparr>
      in active)"

text \<open>
  \<^verbatim>\<open>state.actives[responseMsgId]\<close> is truthy for a key of \<^verbatim>\<open>actives\<close> and for a
  name that \<^verbatim>\<open>actives\<close> has without its being a key. In the second case the value that
  \<^verbatim>\<open>updateIn\<close> hands to its function is no entry: it has no \<^verbatim>\<open>errors\<close> and no
  \<^verbatim>\<open>set\<close>, and the call \<^verbatim>\<open>active.set\<close> throws.
\<close>

definition error ::
  "string set \<Rightarrow> 'c textUtil \<Rightarrow> ('n, 'z) state_scheme \<Rightarrow> message \<Rightarrow>
   js_error + ('n, 'z) state_scheme" where
  "error methods tu state result =
     (let converter = getAsciiToHtmlStream tu;
          responseMsgId = js_to_string (parent_header_msg_id result);
          name = content_ename result;
          val = content_evalue result
      in case content_traceback result of
           None \<Rightarrow> Inl TypeError
         | Some traceback \<Rightarrow>
             (let stacktrace = map_toHtml (toHtml tu) converter traceback;
                  state1 = addHistoryItem state (PythonError name val traceback stacktrace)
              in case actives state1 responseMsgId of
                   Some active \<Rightarrow>
                     Inr (state1\<lparr>actives := (actives state1)
                            (responseMsgId \<mapsto> error_updater name val traceback active)\<rparr>)
                 | None \<Rightarrow>
                     if inherited methods responseMsgId then Inl TypeError else Inr state1))"

text \<open>\<^verbatim>\<open>text.split('\n')\<close> and \<^verbatim>\<open>lines.join('\n')\<close>.\<close>

fun split_newline :: "string \<Rightarrow> string list" where
  "split_newline [] = [[]]"
| "split_newline (c # cs) =
     (if c = CHR 0x0A then [] # split_newline cs
      else (case split_newline cs of
              [] \<Rightarrow> [[c]]
            | line # lines \<Rightarrow> (c # line) # lines))"

fun join_newline :: "string list \<Rightarrow> string" where
  "join_newline [] = []"
| "join_newline [line] = line"
| "join_newline (line # lines) = line @ CHR 0x0A # join_newline lines"

text \<open>
  The text that \<^verbatim>\<open>execute_input\<close> hands to the renderer: \<^verbatim>\<open>content.code\<close>, with
  every line prefixed when \<^verbatim>\<open>state.promptLabel\<close> is truthy. \<^verbatim>\<open>text.split\<close>
  throws when \<^verbatim>\<open>content.code\<close> is missing.
\<close>

definition prompt_text ::
  "('n, 'z) state_scheme \<Rightarrow> string option \<Rightarrow> js_error + string option" where
  "prompt_text state text =
     (if truthy (promptLabel state) then
        (case text of
           None \<Rightarrow> Inl TypeError
         | Some t \<Rightarrow>
             Inr (Some (join_newline (map (\<lambda>(index, v).
               if index = 0 then js_to_string (promptLabel state) @ v
               else (if truthy (continueLabel state) then js_to_string (continueLabel state)
                     else js_to_string (promptLabel state)) @ v)
               (enumerate 0 (split_newline t))))))
      else Inr text)"

definition execute_input ::
  "'c textUtil \<Rightarrow> ('n, 'z) state_scheme \<Rightarrow> message \<Rightarrow> js_error + ('n, 'z) state_scheme" where
  "execute_input tu state result =
     (let source = content_name result
      in case prompt_text state (content_code result) of
           Inl e \<Rightarrow> Inl e
         | Inr text \<Rightarrow>
             (case fromAsciiToHtml tu text of
                Inl e \<Rightarrow> Inl e
              | Inr html \<Rightarrow> Inr (addHistoryItem state (Text source html))))"

definition execute_result ::
  "'c textUtil \<Rightarrow> ('n, 'z) state_scheme \<Rightarrow> message \<Rightarrow> js_error + ('n, 'z) state_scheme" where
  "execute_result tu state result =
     (case content_data result of
        Some data \<Rightarrow>
          (if truthy (map_of data ''text/plain'') then
             (case fromAsciiToHtml tu (map_of data ''text/plain'') of
                Inl e \<Rightarrow> Inl e
              | Inr html \<Rightarrow> Inr (addHistoryItem state (Text (Some ''stdout'') html)))
           else Inr (addHistoryItem state (Annotation data)))
      | None \<Rightarrow> Inr state)"

definition execute_reply ::
  "('n, 'z) state_scheme \<Rightarrow> message \<Rightarrow> js_error + ('n, 'z) state_scheme" where
  "execute_reply state result = Inr state"

text \<open>
  \<^verbatim>\<open>actives.without(key)\<close> drops the key that is equal to its argument; no key is
  equal to \<^verbatim>\<open>undefined\<close>.
\<close>

definition without :: "(string \<rightharpoonup> 'a) \<Rightarrow> string option \<Rightarrow> (string \<rightharpoonup> 'a)" where
  "without obj key = (case key of None \<Rightarrow> obj | Some k \<Rightarrow> obj(k := None))"

definition status ::
  "('n, 'z) state_scheme \<Rightarrow> message \<Rightarrow> js_error + ('n, 'z) state_scheme" where
  "status state result =
     (let responseMsgId = parent_header_msg_id result;
          executionState = content_execution_state result;
          state1 = (if executionState = Some ''busy''
                    then state\<lparr>actives :=
                           (actives state)(js_to_string responseMsgId \<mapsto> empty_object)\<rparr>
                    else state\<lparr>actives := without (actives state) responseMsgId\<rparr>)
      in Inr (addHistoryItem state1 PageBreak))"

definition stream ::
  "'c textUtil \<Rightarrow> ('n, 'z) state_scheme \<Rightarrow> message \<Rightarrow> js_error + ('n, 'z) state_scheme" where
  "stream tu state result =
     (let source = content_name result
      in case fromAsciiToHtml tu (content_text result) of
           Inl e \<Rightarrow> Inl e
         | Inr html \<Rightarrow> Inr (addHistoryItem state (Text source html)))"

text \<open>
  The table \<^verbatim>\<open>responseTypeHandlers\<close>, read at \<^verbatim>\<open>msg_type\<close>: one of its seven
  handlers, or a member of \<^verbatim>\<open>Object.prototype\<close>, which a plain object inherits, or
  \<^verbatim>\<open>undefined\<close>.
\<close>

datatype 'h member = Own 'h | Inherited string

definition responseTypeHandlers ::
  "string set \<Rightarrow> 'c textUtil \<Rightarrow> string option \<Rightarrow>
   (('n, 'z) state_scheme \<Rightarrow> message \<Rightarrow> js_error + ('n, 'z) state_scheme) member option" where
  "responseTypeHandlers methods tu responseType =
     (if responseType = Some ''display_data'' then Some (Own display_data)
      else if responseType = Some ''error'' then Some (Own (error methods tu))
      else if responseType = Some ''execute_input'' then Some (Own (execute_input tu))
      else if responseType = Some ''execute_result'' then Some (Own (execute_result tu))
      else if responseType = Some ''execute_reply'' then Some (Own execute_reply)
      else if responseType = Some ''status'' then Some (Own status)
      else if responseType = Some ''stream'' then Some (Own (stream tu))
      else if js_to_string responseType \<in> set object_prototype
        then Some (Inherited (js_to_string responseType))
      else None)"

subsection \<open>The router\<close>

text \<open>
  Whether \<^verbatim>\<open>responseMsgId && state.responses && state.responses[responseMsgId]\<close>
  is truthy: the id is a non-empty string, the document has \<^verbatim>\<open>responses\<close>, and
  \<^verbatim>\<open>responses\<close> has a property of that name, a key or not.
\<close>

definition detected :: "string set \<Rightarrow> ('n, 'z) state_scheme \<Rightarrow> string option \<Rightarrow> bool" where
  "detected methods state responseMsgId =
     (truthy responseMsgId \<and>
      (case responses state of
         None \<Rightarrow> False
       | Some rs \<Rightarrow> has_property methods rs (js_to_string responseMsgId)))"

text \<open>
  The router calls whatever the table holds at \<^verbatim>\<open>msg_type\<close> and returns what the call
  returns.
\<close>

definition jupyterResponseDetected ::
  "string set \<Rightarrow> 'c textUtil \<Rightarrow> ('n, 'z) state_scheme \<Rightarrow> message \<Rightarrow>
   js_error + ('n, 'z) state_scheme returned" where
  "jupyterResponseDetected methods tu state result =
     (let responseMsgId = parent_header_msg_id result
      in if detected methods state responseMsgId then
           (let responseType = msg_type result
            in case responseTypeHandlers methods tu responseType of
                 Some (Own handler) \<Rightarrow> map_sum id Document (handler state result)
               | Some (Inherited name) \<Rightarrow> inherited_call name state
               | None \<Rightarrow> Inr (Document state))
         else Inr (Document state))"

subsection \<open>Handlers of the direct commands\<close>

text \<open>
  \<^verbatim>\<open>executed\<close> has no \<^verbatim>\<open>return\<close> outside its \<^verbatim>\<open>if\<close>: without
  \<^verbatim>\<open>state.responses\<close> it returns \<^verbatim>\<open>undefined\<close>.
\<close>

definition executed ::
  "('n, 'z) state_scheme \<Rightarrow> string option \<Rightarrow> ('n, 'z) state_scheme option" where
  "executed state payload =
     (case responses state of
        Some rs \<Rightarrow> Some (state\<lparr>responses := Some (rs(js_to_string payload \<mapsto> ()))\<rparr>)
      | None \<Rightarrow> None)"

definition changePreference ::
  "('v \<Rightarrow> 'n) \<Rightarrow> ('n, 'z) state_scheme \<Rightarrow> string option \<Rightarrow> 'v \<Rightarrow> ('n, 'z) state_scheme" where
  "changePreference toNumber state key v =
     (if key = Some ''fontSize'' then state\<lparr>fontSize := Some (toNumber v)\<rparr> else state)"

definition workingDirectoryChanged ::
  "('n, 'z) state_scheme \<Rightarrow> string option \<Rightarrow> ('n, 'z) state_scheme" where
  "workingDirectoryChanged state action_cwd =
     (if truthy action_cwd then state\<lparr>cwd := action_cwd\<rparr> else state)"

definition interrupting :: "('n, 'z) state_scheme \<Rightarrow> ('n, 'z) state_scheme" where
  "interrupting state = state"

text \<open>\<^verbatim>\<open>console.error\<close> writes to the console and changes nothing of the document.\<close>

definition interrupted :: "('n, 'z) state_scheme \<Rightarrow> bool \<Rightarrow> ('n, 'z) state_scheme" where
  "interrupted state action_error =
     (if action_error
      then addHistoryItem state (Text (Some ''stderr'') ''Unable to interrupt terminal'')
      else state)"

definition restarting :: "('n, 'z) state_scheme \<Rightarrow> ('n, 'z) state_scheme" where
  "restarting state = addHistoryItem state (Text (Some ''stdout'') ''restarting terminal...'')"

definition restarted :: "('n, 'z) state_scheme \<Rightarrow> bool \<Rightarrow> ('n, 'z) state_scheme" where
  "restarted state action_error =
     (if action_error
      then addHistoryItem state (Text (Some ''stderr'') ''Unable to restart terminal'')
      else addHistoryItem state (Text (Some ''stdout'') ''done''))"

definition clear :: "('n, 'z) state_scheme \<Rightarrow> ('n, 'z) state_scheme" where
  "clear state = state\<lparr>items := []\<rparr>"

text \<open>\<^verbatim>\<open>items.pop()\<close> on a copy of the array; on an empty array it removes nothing.\<close>

definition removeLastHistoryItem :: "('n, 'z) state_scheme \<Rightarrow> ('n, 'z) state_scheme" where
  "removeLastHistoryItem state = state\<lparr>items := butlast (items state)\<rparr>"

text \<open>\<^verbatim>\<open>_.last\<close>: \<^verbatim>\<open>undefined\<close> on an empty array.\<close>

definition last_item :: "item list \<Rightarrow> item option" where
  "last_item xs = (if xs = [] then None else Some (last xs))"

definition is_autocomplete :: "item option \<Rightarrow> bool" where
  "is_autocomplete lastItem =
     (case lastItem of None \<Rightarrow> False | Some i \<Rightarrow> item_type i = ''autocomplete'')"

definition autocomplete :: "('n, 'z) state_scheme \<Rightarrow> string list \<Rightarrow> ('n, 'z) state_scheme" where
  "autocomplete state matches =
     (let lastItem = last_item (items state);
          state1 = (if is_autocomplete lastItem then removeLastHistoryItem state else state)
      in addHistoryItem state1 (Autocomplete matches))"

definition clearAutocomplete :: "('n, 'z) state_scheme \<Rightarrow> ('n, 'z) state_scheme" where
  "clearAutocomplete state =
     (let lastItem = last_item (items state)
      in if is_autocomplete lastItem then removeLastHistoryItem state else state)"

text \<open>
  Of the payload of a prompt command the reducer reads \<^verbatim>\<open>clearAutocomplete\<close>, for its
  truthiness: \<open>Some flag\<close> is a payload where it is truthy or not, \<open>None\<close> is a
  missing payload, and reading a property of \<^verbatim>\<open>undefined\<close> throws.
\<close>

definition promptCommand ::
  "('n, 'z) state_scheme \<Rightarrow> bool option \<Rightarrow> js_error + ('n, 'z) state_scheme" where
  "promptCommand state payload_clearAutocomplete =
     (case payload_clearAutocomplete of
        None \<Rightarrow> Inl TypeError
      | Some flag \<Rightarrow> Inr (if flag then clearAutocomplete state else state))"

subsection \<open>The table of the exported reducer\<close>

text \<open>
  The actions of the table handed to \<^verbatim>\<open>mapReducers\<close>, each with the fields of the
  action that its handler reads, and the handler the table gives it.
  \<^verbatim>\<open>EXECUTING\<close> goes to \<^verbatim>\<open>promptActionService.execute\<close>, and
  \<^verbatim>\<open>CHANGE_PREFERENCE\<close> uses lodash's \<^verbatim>\<open>toNumber\<close>; both are parameters. A
  result \<open>Inr (Value JUndefined)\<close> is the handler returning \<^verbatim>\<open>undefined\<close>. The command
  line's reducer, which \<^verbatim>\<open>reduceReducers\<close> runs on the result, is not part of the
  table.
\<close>

datatype 'v action =
    AUTOCOMPLETE "string list"
  | CLEAR_AUTOCOMPLETE
  | CLEAR
  | INTERRUPTING
  | INTERRUPTED bool
  | EXECUTING
  | EXECUTED "string option"
  | RESTARTING
  | RESTARTED bool
  | JUPYTER_RESPONSE message
  | CHANGE_PREFERENCE "string option" 'v
  | WORKING_DIRECTORY_CHANGED "string option"
  | PROMPT_VIEWER_COMMAND "bool option"

definition executing ::
  "(('n, 'z) state_scheme \<Rightarrow> js_error + ('n, 'z) state_scheme returned) \<Rightarrow>
   ('n, 'z) state_scheme \<Rightarrow> js_error + ('n, 'z) state_scheme returned" where
  "executing execute state = execute state"

fun handle ::
  "string set \<Rightarrow> 'c textUtil \<Rightarrow>
   (('n, 'z) state_scheme \<Rightarrow> js_error + ('n, 'z) state_scheme returned) \<Rightarrow>
   ('v \<Rightarrow> 'n) \<Rightarrow> ('n, 'z) state_scheme \<Rightarrow> 'v action \<Rightarrow>
   js_error + ('n, 'z) state_scheme returned" where
  "handle methods tu execute toNumber state (AUTOCOMPLETE matches) =
     Inr (Document (autocomplete state matches))"
| "handle methods tu execute toNumber state CLEAR_AUTOCOMPLETE =
     Inr (Document (clearAutocomplete state))"
| "handle methods tu execute toNumber state CLEAR = Inr (Document (clear state))"
| "handle methods tu execute toNumber state INTERRUPTING = Inr (Document (interrupting state))"
| "handle methods tu execute toNumber state (INTERRUPTED err) =
     Inr (Document (interrupted state err))"
| "handle methods tu execute toNumber state EXECUTING = executing execute state"
| "handle methods tu execute toNumber state (EXECUTED payload) =
     Inr (case executed state payload of
            Some state' \<Rightarrow> Document state'
          | None \<Rightarrow> Value JUndefined)"
| "handle methods tu execute toNumber state RESTARTING = Inr (Document (restarting state))"
| "handle methods tu execute toNumber state (RESTARTED err) =
     Inr (Document (restarted state err))"
| "handle methods tu execute toNumber state (JUPYTER_RESPONSE result) =
     jupyterResponseDetected methods tu state result"
| "handle methods tu execute toNumber state (CHANGE_PREFERENCE key v) =
     Inr (Document (changePreference toNumber state key v))"
| "handle methods tu execute toNumber state (WORKING_DIRECTORY_CHANGED action_cwd) =
     Inr (Document (workingDirectoryChanged state action_cwd))"
| "handle methods tu execute toNumber state (PROMPT_VIEWER_COMMAND payload) =
     map_sum id Document (promptCommand state payload)"

subsection \<open>Notions of the specification\<close>

text \<open>
  A registered request: its id is a non-empty string and a key of
  \<^verbatim>\<open>state.responses\<close>.
\<close>

definition registered :: "('n, 'z) state_scheme \<Rightarrow> string option \<Rightarrow> bool" where
  "registered state responseMsgId =
     (truthy responseMsgId \<and>
      (case responses state of
         None \<Rightarrow> False
       | Some rs \<Rightarrow> rs (js_to_string responseMsgId) \<noteq> None))"

text \<open>\<^verbatim>\<open>actives[r].errors\<close>: the error list of the active entry of a request, if any.\<close>

definition errors_of :: "('n, 'z) state_scheme \<Rightarrow> string \<Rightarrow> jsval list option" where
  "errors_of state r = (case actives state r of None \<Rightarrow> None | Some active \<Rightarrow> errors active)"

text \<open>A sequence of \<^verbatim>\<open>autocomplete\<close> and \<^verbatim>\<open>clearAutocomplete\<close> commands.\<close>

datatype overlay_command = Suggest "string list" | Dismiss

fun overlay_step :: "('n, 'z) state_scheme \<Rightarrow> overlay_command \<Rightarrow> ('n, 'z) state_scheme" where
  "overlay_step state (Suggest matches) = autocomplete state matches"
| "overlay_step state Dismiss = clearAutocomplete state"

definition overlay_run ::
  "('n, 'z) state_scheme \<Rightarrow> overlay_command list \<Rightarrow> ('n, 'z) state_scheme" where
  "overlay_run state commands = foldl overlay_step state commands"

text \<open>
  At most one \<^verbatim>\<open>autocomplete\<close> item, and an \<^verbatim>\<open>autocomplete\<close> item is nowhere but
  in the last place.
\<close>

definition single_overlay :: "item list \<Rightarrow> bool" where
  "single_overlay xs =
     (length (filter (\<lambda>i. item_type i = ''autocomplete'') xs) \<le> 1 \<and>
      (\<forall>k < length xs. item_type (xs ! k) = ''autocomplete'' \<longrightarrow> Suc k = length xs))"

text \<open>
  Prompt prefixing in the specification's words: the first line gets the prompt label,
  every later line the continuation label if it is set and the prompt label if not.
\<close>

definition prefixed_lines :: "string \<Rightarrow> string option \<Rightarrow> string list \<Rightarrow> string list" where
  "prefixed_lines prompt continue lines =
     (case lines of
        [] \<Rightarrow> []
      | first # rest \<Rightarrow>
          (prompt @ first) #
          map (\<lambda>line. (case continue of
                          None \<Rightarrow> prompt
                        | Some c \<Rightarrow> if c = [] then prompt else c) @ line) rest)"

subsection \<open>Sample documents and messages\<close>

text \<open>
  A text utility for the samples: it renders a text as the text itself, and its
  converter has no state.
\<close>

definition plain_textUtil :: "unit textUtil" where
  "plain_textUtil =
     \<lparr>fromAsciiToHtml = (\<lambda>text. Inr (js_to_string text)),
      getAsciiToHtmlStream = (),
      toHtml = (\<lambda>converter line. (line, converter))\<rparr>"

text \<open>
  A text utility that throws when it is to render \<^verbatim>\<open>undefined\<close>, and renders a
  string as the string itself.
\<close>

definition strict_textUtil :: "unit textUtil" where
  "strict_textUtil =
     \<lparr>fromAsciiToHtml = (\<lambda>text. case text of None \<Rightarrow> Inl TypeError | Some t \<Rightarrow> Inr t),
      getAsciiToHtmlStream = (),
      toHtml = (\<lambda>converter line. (line, converter))\<rparr>"

text \<open>An execution helper for the samples: it returns the document as it is.\<close>

definition plain_execute :: "nat state \<Rightarrow> js_error + nat state returned" where
  "plain_execute state = Inr (Document state)"

text \<open>Names of methods that an immutable library attaches to its objects.\<close>

definition attached_methods :: "string set" where
  "attached_methods =
     set [''merge'', ''replace'', ''without'', ''asMutable'', ''set'', ''setIn'', ''update'',
          ''updateIn'', ''getIn'']"

definition session :: "nat state" where
  "session =
     \<lparr>items = [], actives = Map.empty, responses = Some Map.empty, fontSize = None,
      cwd = None, promptLabel = None, continueLabel = None\<rparr>"

definition envelope :: message where
  "envelope =
     \<lparr>msg_type = None, parent_header_msg_id = None, content_data = None,
      content_ename = None, content_evalue = None, content_traceback = None,
      content_name = None, content_code = None, content_text = None,
      content_execution_state = None\<rparr>"

text \<open>Request \<^verbatim>\<open>R\<close> is registered and active, with an empty error list.\<close>

definition session_R :: "nat state" where
  "session_R =
     session\<lparr>actives := [''R'' \<mapsto> \<lparr>errors = Some []\<rparr>], responses := Some [''R'' \<mapsto> ()]\<rparr>"

definition value_error_R :: message where
  "value_error_R =
     envelope\<lparr>msg_type := Some ''error'', parent_header_msg_id := Some ''R'',
       content_ename := Some ''ValueError'', content_evalue := Some ''bad'',
       content_traceback := Some [''line1'']\<rparr>"

text \<open>A document without \<^verbatim>\<open>responses\<close>.\<close>

definition session_without_responses :: "nat state" where
  "session_without_responses = session\<lparr>responses := None, cwd := Some ''/home''\<rparr>"

text \<open>Request \<^verbatim>\<open>5\<close> is registered, in a document with prompt labels.\<close>

definition session_prompt :: "nat state" where
  "session_prompt =
     session\<lparr>responses := Some [''5'' \<mapsto> ()], promptLabel := Some ''>>> '',
       continueLabel := Some ''... ''\<rparr>"

definition input_without_code :: message where
  "input_without_code =
     envelope\<lparr>msg_type := Some ''execute_input'', parent_header_msg_id := Some ''5'',
       content_name := Some ''stdin''\<rparr>"

definition input_two_lines :: message where
  "input_two_lines = input_without_code\<lparr>content_code := Some ''a\<newline>b''\<rparr>"

definition stream_without_text :: message where
  "stream_without_text =
     envelope\<lparr>msg_type := Some ''stream'', parent_header_msg_id := Some ''5'',
       content_name := Some ''stdout''\<rparr>"

definition name_error_5 :: message where
  "name_error_5 =
     envelope\<lparr>msg_type := Some ''error'', parent_header_msg_id := Some ''5'',
       content_ename := Some ''NameError'', content_evalue := Some ''x'',
       content_traceback := Some [''line1'', ''line2'']\<rparr>"

text \<open>A document whose transcript ends in an overlay, and one that is only an overlay.\<close>

definition session_page :: "nat state" where
  "session_page = session\<lparr>items := [PageBreak], fontSize := Some 12, cwd := Some ''/home''\<rparr>"

definition session_overlay :: "nat state" where
  "session_overlay =
     session\<lparr>items := [Autocomplete [''print'']], fontSize := Some 12, cwd := Some ''/home''\<rparr>"

text \<open>Status messages for request \<^verbatim>\<open>5\<close>.\<close>

definition status_busy_5 :: message where
  "status_busy_5 =
     envelope\<lparr>msg_type := Some ''status'', parent_header_msg_id := Some ''5'',
       content_execution_state := Some ''busy''\<rparr>"

definition status_idle_5 :: message where
  "status_idle_5 = status_busy_5\<lparr>content_execution_state := Some ''idle''\<rparr>"





text \<open>
  Request \<^verbatim>\<open>5\<close> is registered and active, with the entry that a \<^verbatim>\<open>busy\<close> status
  creates; error messages for it with an empty traceback and with none.
\<close>

definition session_busy :: "nat state" where
  "session_busy =
     session\<lparr>actives := [''5'' \<mapsto> \<lparr>errors = None\<rparr>], responses := Some [''5'' \<mapsto> ()]\<rparr>"

definition error_empty_traceback :: message where
  "error_empty_traceback = name_error_5\<lparr>content_traceback := Some []\<rparr>"

definition error_without_traceback :: message where
  "error_without_traceback = name_error_5\<lparr>content_traceback := None\<rparr>"

text \<open>A document whose working directory is the empty string from the start.\<close>

definition session_no_cwd :: "nat state" where
  "session_no_cwd = session\<lparr>cwd := Some []\<rparr>"

section \<open>Properties\<close>

subsection \<open>The error handler and the active entry\<close>

lemma error_updater_same [simp]: "error_updater name val traceback active = active"
  by (simp add: error_updater_def Let_def)

lemma error_returns:
  "content_traceback result = Some traceback \<Longrightarrow>
   actives state (js_to_string (parent_header_msg_id result)) \<noteq> None \<or>
   \<not> inherited methods (js_to_string (parent_header_msg_id result)) \<Longrightarrow>
   error methods tu state result =
     Inr (addHistoryItem state
       (PythonError (content_ename result) (content_evalue result) traceback
          (map_toHtml (toHtml tu) (getAsciiToHtmlStream tu) traceback)))"
  by (auto simp: error_def Let_def addHistoryItem_def fun_upd_idem split: option.splits)

lemma error_result:
  assumes "error methods tu state result = Inr state'"
  shows "\<exists>item. state' = addHistoryItem state item"
proof (cases "content_traceback result")
  case None
  with assms show ?thesis
    by (simp add: error_def)
next
  case (Some traceback)
  with assms show ?thesis
    by (auto simp: error_def Let_def addHistoryItem_def fun_upd_idem
        split: option.splits if_splits)
qed

lemma error_keeps_actives:
  "error methods tu state result = Inr state' \<Longrightarrow> actives state' = actives state"
  by (auto simp: addHistoryItem_def dest: error_result)

lemma registered_detected:
  "registered state responseMsgId \<Longrightarrow> detected methods state responseMsgId"
  by (auto simp: registered_def detected_def has_property_def split: option.splits)

lemma detected_router:
  "detected methods state (parent_header_msg_id result) \<Longrightarrow>
   responseTypeHandlers methods tu (msg_type result) = Some (Own handler) \<Longrightarrow>
   jupyterResponseDetected methods tu state result = map_sum id Document (handler state result)"
  by (simp add: jupyterResponseDetected_def)

lemma registered_router:
  "registered state (parent_header_msg_id result) \<Longrightarrow>
   responseTypeHandlers methods tu (msg_type result) = Some (Own handler) \<Longrightarrow>
   jupyterResponseDetected methods tu state result = map_sum id Document (handler state result)"
  by (simp add: detected_router registered_detected)

text \<open>
  C1. An active request \<^verbatim>\<open>R\<close> with an empty error list receives the error message
  \<^verbatim>\<open>ValueError\<close>, \<^verbatim>\<open>bad\<close>, \<^verbatim>\<open>["line1"]\<close>. The handler appends one
  \<^verbatim>\<open>pythonError\<close> item named \<^verbatim>\<open>ValueError\<close> and keeps the active entry, but the
  entry's error list is still empty afterwards: it is not
  \<^verbatim>\<open>[["ValueError", "bad", ["line1"]]]\<close>, since the object that \<^verbatim>\<open>active.set\<close>
  returns is dropped.
\<close>

theorem error_correlation_lost:
  "jupyterResponseDetected attached_methods plain_textUtil session_R value_error_R =
     Inr (Document (session_R\<lparr>items :=
       [PythonError (Some ''ValueError'') (Some ''bad'') [''line1''] [''line1'']]\<rparr>)) \<and>
   errors_of session_R ''R'' = Some [] \<and>
   errors_of (session_R\<lparr>items :=
       [PythonError (Some ''ValueError'') (Some ''bad'') [''line1''] [''line1'']]\<rparr>) ''R''
     = Some [] \<and>
   errors_of (session_R\<lparr>items :=
       [PythonError (Some ''ValueError'') (Some ''bad'') [''line1''] [''line1'']]\<rparr>) ''R''
     \<noteq> Some [JArray [JString ''ValueError'', JString ''bad'', JArray [JString ''line1'']]]"
proof -
  have "registered session_R (parent_header_msg_id value_error_R)"
    by (simp add: registered_def truthy_def js_to_string_def session_R_def session_def
        value_error_R_def envelope_def)
  moreover have "responseTypeHandlers attached_methods plain_textUtil (msg_type value_error_R) =
      Some (Own (error attached_methods plain_textUtil))"
    by (simp add: responseTypeHandlers_def value_error_R_def envelope_def)
  ultimately have "jupyterResponseDetected attached_methods plain_textUtil session_R value_error_R =
      map_sum id Document (error attached_methods plain_textUtil session_R value_error_R)"
    by (rule registered_router)
  moreover have "error attached_methods plain_textUtil session_R value_error_R =
      Inr (session_R\<lparr>items :=
        [PythonError (Some ''ValueError'') (Some ''bad'') [''line1''] [''line1'']]\<rparr>)"
    by (simp add: error_def Let_def addHistoryItem_def js_to_string_def
        session_R_def session_def value_error_R_def envelope_def plain_textUtil_def)
  ultimately show ?thesis
    by (simp add: errors_of_def session_R_def session_def)
qed

subsection \<open>Registering a request\<close>

text \<open>
  C2. On a document without \<^verbatim>\<open>responses\<close> the \<^verbatim>\<open>executed\<close> command does not
  return the document: it returns \<^verbatim>\<open>undefined\<close>.
\<close>

theorem executed_without_responses_undefined:
  "responses session_without_responses = None \<and>
   executed session_without_responses (Some ''5'') = None \<and>
   handle attached_methods plain_textUtil plain_execute id session_without_responses
     (EXECUTED (Some ''5'')) = Inr (Value JUndefined)"
  by (simp add: executed_def session_without_responses_def session_def)

lemma executed_with_responses:
  "responses state = Some rs \<Longrightarrow>
   executed state (Some r) = Some (state\<lparr>responses := Some (rs(r \<mapsto> ()))\<rparr>)"
  by (simp add: executed_def js_to_string_def)

subsection \<open>Handlers that throw\<close>

text \<open>
  C3, as stated, fails: with a prompt label configured, an \<^verbatim>\<open>execute_input\<close> message
  for a registered request whose \<^verbatim>\<open>content.code\<close> is missing makes the handler call
  \<^verbatim>\<open>split\<close> on \<^verbatim>\<open>undefined\<close>, which throws.
\<close>

theorem execute_input_without_code_throws:
  "registered session_prompt (parent_header_msg_id input_without_code) \<and>
   msg_type input_without_code = Some ''execute_input'' \<and>
   content_code input_without_code = None \<and>
   execute_input plain_textUtil session_prompt input_without_code = Inl TypeError \<and>
   jupyterResponseDetected attached_methods plain_textUtil session_prompt input_without_code =
     Inl TypeError"
proof -
  have reg: "registered session_prompt (parent_header_msg_id input_without_code)"
    by (simp add: registered_def truthy_def js_to_string_def session_prompt_def session_def
        input_without_code_def envelope_def)
  have "responseTypeHandlers attached_methods plain_textUtil (msg_type input_without_code) =
      Some (Own (execute_input plain_textUtil))"
    by (simp add: responseTypeHandlers_def input_without_code_def envelope_def)
  with reg have "jupyterResponseDetected attached_methods plain_textUtil session_prompt
      input_without_code =
      map_sum id Document (execute_input plain_textUtil session_prompt input_without_code)"
    by (rule registered_router)
  moreover have "execute_input plain_textUtil session_prompt input_without_code = Inl TypeError"
    by (simp add: execute_input_def prompt_text_def truthy_def session_prompt_def session_def
        input_without_code_def envelope_def)
  ultimately show ?thesis
    using reg by (simp add: input_without_code_def envelope_def)
qed

lemma render_returns:
  "\<not> isl (fromAsciiToHtml tu handed) \<Longrightarrow> \<exists>html. fromAsciiToHtml tu handed = Inr html"
  by (cases "fromAsciiToHtml tu handed") simp_all

lemma display_data_appends:
  "\<exists>state'. display_data state result = Inr state' \<and>
     (items state' = items state \<or> (\<exists>item. items state' = items state @ [item]))"
  by (simp add: display_data_def addHistoryItem_def split: option.splits)

lemma error_appends:
  assumes "content_traceback result \<noteq> None"
    and "actives state (js_to_string (parent_header_msg_id result)) \<noteq> None \<or>
         \<not> inherited methods (js_to_string (parent_header_msg_id result))"
  shows "\<exists>state'. error methods tu state result = Inr state' \<and>
     (items state' = items state \<or> (\<exists>item. items state' = items state @ [item]))"
proof -
  from assms(1) obtain traceback where "content_traceback result = Some traceback"
    by auto
  from error_returns [OF this assms(2), of tu] show ?thesis
    by (simp add: addHistoryItem_def)
qed

lemma execute_input_appends:
  assumes "truthy (promptLabel state) \<longrightarrow> content_code result \<noteq> None"
    and "\<forall>prefixed. prompt_text state (content_code result) = Inr prefixed \<longrightarrow>
           \<not> isl (fromAsciiToHtml tu prefixed)"
  shows "\<exists>state'. execute_input tu state result = Inr state' \<and>
     (items state' = items state \<or> (\<exists>item. items state' = items state @ [item]))"
proof -
  from assms(1) have "\<exists>prefixed. prompt_text state (content_code result) = Inr prefixed"
    by (cases "content_code result") (simp_all add: prompt_text_def)
  then obtain prefixed where prefixed: "prompt_text state (content_code result) = Inr prefixed"
    by blast
  with assms(2) have "\<not> isl (fromAsciiToHtml tu prefixed)"
    by blast
  then obtain html where "fromAsciiToHtml tu prefixed = Inr html"
    using render_returns by blast
  with prefixed show ?thesis
    by (simp add: execute_input_def addHistoryItem_def)
qed

lemma execute_result_appends:
  assumes "\<forall>data. content_data result = Some data \<longrightarrow> truthy (map_of data ''text/plain'') \<longrightarrow>
           \<not> isl (fromAsciiToHtml tu (map_of data ''text/plain''))"
  shows "\<exists>state'. execute_result tu state result = Inr state' \<and>
     (items state' = items state \<or> (\<exists>item. items state' = items state @ [item]))"
proof (cases "content_data result")
  case None
  then show ?thesis by (simp add: execute_result_def)
next
  case (Some data)
  show ?thesis
  proof (cases "truthy (map_of data ''text/plain'')")
    case False
    with Some show ?thesis
      by (simp add: execute_result_def addHistoryItem_def)
  next
    case True
    with assms Some have "\<not> isl (fromAsciiToHtml tu (map_of data ''text/plain''))"
      by blast
    then obtain html where "fromAsciiToHtml tu (map_of data ''text/plain'') = Inr html"
      using render_returns by blast
    with Some True show ?thesis
      by (simp add: execute_result_def addHistoryItem_def)
  qed
qed

lemma status_appends:
  "\<exists>state'. status state result = Inr state' \<and>
     (items state' = items state \<or> (\<exists>item. items state' = items state @ [item]))"
  by (simp add: status_def addHistoryItem_def Let_def)

lemma stream_appends:
  assumes "\<not> isl (fromAsciiToHtml tu (content_text result))"
  shows "\<exists>state'. stream tu state result = Inr state' \<and>
     (items state' = items state \<or> (\<exists>item. items state' = items state @ [item]))"
proof -
  from render_returns [OF assms] obtain html
    where "fromAsciiToHtml tu (content_text result) = Inr html"
    by blast
  then show ?thesis
    by (simp add: stream_def addHistoryItem_def)
qed

lemma returned_document:
  "\<exists>state'. handled = Inr state' \<and> P state' \<Longrightarrow>
   \<exists>state'. map_sum id Document handled = Inr (Document state') \<and> P state'"
  by auto

text \<open>
  C3, amended. The router returns a document whose transcript is the old one or the old
  one with one more item, and no handler throws, for every document and every message,
  provided that the message's type is no name of a member of \<^verbatim>\<open>Object.prototype\<close>;
  that an \<^verbatim>\<open>error\<close> message carries a traceback, and its request id is a key of
  \<^verbatim>\<open>actives\<close> or else no name that \<^verbatim>\<open>actives\<close> has without its being a key; that
  an \<^verbatim>\<open>execute_input\<close> message carries \<^verbatim>\<open>content.code\<close> when the document's
  prompt label is configured; and that the external renderer \<^verbatim>\<open>fromAsciiToHtml\<close> does
  not throw on what this message makes the handler hand to it: the prefixed code of an
  \<^verbatim>\<open>execute_input\<close> message, the \<^verbatim>\<open>text/plain\<close> data of an \<^verbatim>\<open>execute_result\<close>
  message, the text of a \<^verbatim>\<open>stream\<close> message, which is \<^verbatim>\<open>undefined\<close> when the
  message has none.
\<close>

theorem handlers_return:
  assumes "js_to_string (msg_type result) \<notin> set object_prototype"
    and "msg_type result = Some ''error'' \<longrightarrow> content_traceback result \<noteq> None"
    and "msg_type result = Some ''error'' \<longrightarrow>
         actives state (js_to_string (parent_header_msg_id result)) \<noteq> None \<or>
         \<not> inherited methods (js_to_string (parent_header_msg_id result))"
    and "msg_type result = Some ''execute_input'' \<longrightarrow> truthy (promptLabel state) \<longrightarrow>
         content_code result \<noteq> None"
    and "msg_type result = Some ''execute_input'' \<longrightarrow>
         (\<forall>prefixed. prompt_text state (content_code result) = Inr prefixed \<longrightarrow>
            \<not> isl (fromAsciiToHtml tu prefixed))"
    and "msg_type result = Some ''execute_result'' \<longrightarrow>
         (\<forall>data. content_data result = Some data \<longrightarrow> truthy (map_of data ''text/plain'') \<longrightarrow>
            \<not> isl (fromAsciiToHtml tu (map_of data ''text/plain'')))"
    and "msg_type result = Some ''stream'' \<longrightarrow> \<not> isl (fromAsciiToHtml tu (content_text result))"
  shows "\<exists>state'. jupyterResponseDetected methods tu state result = Inr (Document state') \<and>
     (items state' = items state \<or> (\<exists>item. items state' = items state @ [item]))"
proof (cases "detected methods state (parent_header_msg_id result)")
  case False
  then show ?thesis by (simp add: jupyterResponseDetected_def)
next
  case True
  then have router: "jupyterResponseDetected methods tu state result =
      (case responseTypeHandlers methods tu (msg_type result) of
         Some (Own handler) \<Rightarrow> map_sum id Document (handler state result)
       | Some (Inherited name) \<Rightarrow> inherited_call name state
       | None \<Rightarrow> Inr (Document state))"
    by (simp add: jupyterResponseDetected_def)
  show ?thesis
    unfolding router responseTypeHandlers_def
    using assms
      returned_document [OF display_data_appends [of state result]]
      returned_document [OF error_appends [of result state methods tu]]
      returned_document [OF execute_input_appends [of state result tu]]
      returned_document [OF execute_result_appends [of result tu state]]
      returned_document [OF status_appends [of state result]]
      returned_document [OF stream_appends [of tu result state]]
    by (simp add: execute_reply_def)
qed

theorem handlers_return_witness:
  "js_to_string (msg_type name_error_5) \<notin> set object_prototype \<and>
   msg_type name_error_5 = Some ''error'' \<and> content_traceback name_error_5 \<noteq> None \<and>
   \<not> inherited attached_methods (js_to_string (parent_header_msg_id name_error_5)) \<and>
   (\<exists>state'. jupyterResponseDetected attached_methods strict_textUtil session_prompt
        name_error_5 = Inr (Document state') \<and>
      (items state' = items session_prompt \<or>
       (\<exists>item. items state' = items session_prompt @ [item]))) \<and>
   fromAsciiToHtml strict_textUtil None = Inl TypeError \<and>
   msg_type input_two_lines = Some ''execute_input'' \<and> truthy (promptLabel session_prompt) \<and>
   content_code input_two_lines \<noteq> None \<and>
   prompt_text session_prompt (content_code input_two_lines) =
     Inr (Some ''>>> a\<newline>... b'') \<and>
   \<not> isl (fromAsciiToHtml strict_textUtil (Some ''>>> a\<newline>... b'')) \<and>
   (\<exists>state'. jupyterResponseDetected attached_methods strict_textUtil session_prompt
        input_two_lines = Inr (Document state') \<and>
      (items state' = items session_prompt \<or>
       (\<exists>item. items state' = items session_prompt @ [item]))) \<and>
   msg_type stream_without_text = Some ''stream'' \<and> content_text stream_without_text = None \<and>
   \<not> isl (fromAsciiToHtml plain_textUtil (content_text stream_without_text)) \<and>
   (\<exists>state'. jupyterResponseDetected attached_methods plain_textUtil session_prompt
        stream_without_text = Inr (Document state') \<and>
      (items state' = items session_prompt \<or>
       (\<exists>item. items state' = items session_prompt @ [item])))"
proof -
  have err: "js_to_string (msg_type name_error_5) \<notin> set object_prototype"
    "msg_type name_error_5 = Some ''error''" "content_traceback name_error_5 \<noteq> None"
    "\<not> inherited attached_methods (js_to_string (parent_header_msg_id name_error_5))"
    by (simp_all add: name_error_5_def envelope_def js_to_string_def object_prototype_def
        inherited_def attached_methods_def)
  have inp: "js_to_string (msg_type input_two_lines) \<notin> set object_prototype"
    "msg_type input_two_lines = Some ''execute_input''"
    "truthy (promptLabel session_prompt)" "content_code input_two_lines \<noteq> None"
    "prompt_text session_prompt (content_code input_two_lines) =
       Inr (Some ''>>> a\<newline>... b'')"
    by (simp_all add: input_two_lines_def input_without_code_def envelope_def js_to_string_def
        object_prototype_def session_prompt_def session_def truthy_def prompt_text_def)
  have strict: "fromAsciiToHtml strict_textUtil None = Inl TypeError"
    "\<not> isl (fromAsciiToHtml strict_textUtil (Some ''>>> a\<newline>... b''))"
    by (simp_all add: strict_textUtil_def)
  have str: "js_to_string (msg_type stream_without_text) \<notin> set object_prototype"
    "msg_type stream_without_text = Some ''stream''"
    "content_text stream_without_text = None"
    "\<not> isl (fromAsciiToHtml plain_textUtil (content_text stream_without_text))"
    by (simp_all add: stream_without_text_def envelope_def js_to_string_def
        object_prototype_def plain_textUtil_def)
  have "\<exists>state'. jupyterResponseDetected attached_methods strict_textUtil session_prompt
        name_error_5 = Inr (Document state') \<and>
      (items state' = items session_prompt \<or>
       (\<exists>item. items state' = items session_prompt @ [item]))"
    using err by (intro handlers_return) simp_all
  moreover have "\<exists>state'. jupyterResponseDetected attached_methods strict_textUtil
        session_prompt input_two_lines = Inr (Document state') \<and>
      (items state' = items session_prompt \<or>
       (\<exists>item. items state' = items session_prompt @ [item]))"
    using inp strict by (intro handlers_return) simp_all
  moreover have "\<exists>state'. jupyterResponseDetected attached_methods plain_textUtil
        session_prompt stream_without_text = Inr (Document state') \<and>
      (items state' = items session_prompt \<or>
       (\<exists>item. items state' = items session_prompt @ [item]))"
    using str by (intro handlers_return) simp_all
  ultimately show ?thesis
    using err inp strict str by simp
qed

subsection \<open>The autocomplete overlay\<close>

lemma last_item_overlay:
  "is_autocomplete (last_item xs) \<longleftrightarrow> xs \<noteq> [] \<and> item_type (last xs) = ''autocomplete''"
  by (simp add: is_autocomplete_def last_item_def)

lemma tail_only_single_overlay:
  assumes "\<forall>i \<in> set (butlast xs). item_type i \<noteq> ''autocomplete''"
  shows "single_overlay xs"
proof (cases "xs = []")
  case True
  then show ?thesis by (simp add: single_overlay_def)
next
  case False
  then have xs: "xs = butlast xs @ [last xs]"
    by simp
  from assms have none: "filter (\<lambda>i. item_type i = ''autocomplete'') (butlast xs) = []"
    by (simp add: filter_empty_conv)
  have "filter (\<lambda>i. item_type i = ''autocomplete'') xs =
      filter (\<lambda>i. item_type i = ''autocomplete'') (butlast xs) @
      filter (\<lambda>i. item_type i = ''autocomplete'') [last xs]"
    by (subst xs) (simp only: filter_append)
  with none have count: "length (filter (\<lambda>i. item_type i = ''autocomplete'') xs) \<le> 1"
    by simp
  have place: "Suc k = length xs"
    if "k < length xs" and "item_type (xs ! k) = ''autocomplete''" for k
  proof (rule ccontr)
    assume "Suc k \<noteq> length xs"
    with that(1) have k: "k < length (butlast xs)"
      by simp
    then have "butlast xs ! k \<in> set (butlast xs)"
      by (rule nth_mem)
    moreover from k have "butlast xs ! k = xs ! k"
      by (rule nth_butlast)
    ultimately show False
      using assms that(2) by auto
  qed
  from count place show ?thesis
    by (simp add: single_overlay_def)
qed

lemma autocomplete_tail_only:
  assumes "\<forall>i \<in> set (butlast (items state)). item_type i \<noteq> ''autocomplete''"
  shows "\<forall>i \<in> set (butlast (items (autocomplete state matches))). item_type i \<noteq> ''autocomplete''"
proof (cases "is_autocomplete (last_item (items state))")
  case True
  then show ?thesis
    using assms
    by (simp add: autocomplete_def addHistoryItem_def removeLastHistoryItem_def butlast_append)
next
  case False
  then have "items state = [] \<or> item_type (last (items state)) \<noteq> ''autocomplete''"
    by (simp add: last_item_overlay)
  then have "\<forall>i \<in> set (items state). item_type i \<noteq> ''autocomplete''"
  proof
    assume "items state = []"
    then show ?thesis by simp
  next
    assume tail: "item_type (last (items state)) \<noteq> ''autocomplete''"
    show ?thesis
    proof (cases "items state = []")
      case True
      then show ?thesis by simp
    next
      case False
      then have "set (items state) = insert (last (items state)) (set (butlast (items state)))"
        by (metis append_butlast_last_id list.simps(15) rotate1.simps(2) set_rotate1)
      with assms tail show ?thesis
        by simp
    qed
  qed
  with False show ?thesis
    by (simp add: autocomplete_def addHistoryItem_def butlast_append)
qed

lemma clearAutocomplete_tail_only:
  assumes "\<forall>i \<in> set (butlast (items state)). item_type i \<noteq> ''autocomplete''"
  shows "\<forall>i \<in> set (butlast (items (clearAutocomplete state))). item_type i \<noteq> ''autocomplete''"
  using assms
  by (auto simp: clearAutocomplete_def removeLastHistoryItem_def Let_def dest: in_set_butlastD)

lemma overlay_run_tail_only:
  "\<forall>i \<in> set (butlast (items state)). item_type i \<noteq> ''autocomplete'' \<Longrightarrow>
   \<forall>i \<in> set (butlast (items (overlay_run state commands))). item_type i \<noteq> ''autocomplete''"
  unfolding overlay_run_def
proof (induction commands arbitrary: state)
  case Nil
  then show ?case by simp
next
  case (Cons command commands)
  have "\<forall>i \<in> set (butlast (items (overlay_step state command))). item_type i \<noteq> ''autocomplete''"
  proof (cases command)
    case (Suggest matches)
    from autocomplete_tail_only [OF Cons.prems, of matches] show ?thesis
      unfolding Suggest overlay_step.simps .
  next
    case Dismiss
    from clearAutocomplete_tail_only [OF Cons.prems] show ?thesis
      unfolding Dismiss overlay_step.simps .
  qed
  from Cons.IH [OF this] show ?case
    unfolding foldl_Cons .
qed

text \<open>
  C4. From a document with no \<^verbatim>\<open>autocomplete\<close> item, after each command of any
  sequence of \<^verbatim>\<open>autocomplete\<close> and \<^verbatim>\<open>clearAutocomplete\<close> commands the transcript
  holds at most one \<^verbatim>\<open>autocomplete\<close> item, and if it holds one it is the last item.
\<close>

theorem autocomplete_single_overlay:
  assumes "\<forall>i \<in> set (items state). item_type i \<noteq> ''autocomplete''"
  shows "\<forall>n \<le> length commands. single_overlay (items (overlay_run state (take n commands)))"
proof -
  from assms have "\<forall>i \<in> set (butlast (items state)). item_type i \<noteq> ''autocomplete''"
    by (auto dest: in_set_butlastD)
  then have "single_overlay (items (overlay_run state prefix))" for prefix
    by (intro tail_only_single_overlay overlay_run_tail_only)
  then show ?thesis
    by blast
qed

theorem autocomplete_single_overlay_witness:
  "items session_page = [PageBreak] \<and>
   single_overlay (items (overlay_run session_page [Suggest [''a'']])) \<and>
   single_overlay (items (overlay_run session_page [Suggest [''a''], Suggest [''b'']])) \<and>
   single_overlay (items (overlay_run session_page [Suggest [''a''], Suggest [''b''], Dismiss])) \<and>
   items (overlay_run session_page [Suggest [''a''], Suggest [''b'']]) =
     [PageBreak, Autocomplete [''b'']] \<and>
   items (overlay_run session_page [Suggest [''a''], Suggest [''b''], Dismiss]) = [PageBreak]"
proof -
  have start: "\<forall>i \<in> set (items session_page). item_type i \<noteq> ''autocomplete''"
    by (simp add: session_page_def session_def)
  have run: "items (overlay_run session_page [Suggest [''a''], Suggest [''b'']]) =
       [PageBreak, Autocomplete [''b'']]"
    "items (overlay_run session_page [Suggest [''a''], Suggest [''b''], Dismiss]) = [PageBreak]"
    by (simp_all add: overlay_run_def autocomplete_def clearAutocomplete_def
        addHistoryItem_def removeLastHistoryItem_def last_item_def is_autocomplete_def
        session_page_def session_def)
  have "items session_page = [PageBreak]"
    by (simp add: session_page_def session_def)
  with run show ?thesis
    using autocomplete_single_overlay [OF start, of "[Suggest [''a''], Suggest [''b''], Dismiss]",
        THEN spec, of 1]
      autocomplete_single_overlay [OF start, of "[Suggest [''a''], Suggest [''b''], Dismiss]",
        THEN spec, of 2]
      autocomplete_single_overlay [OF start, of "[Suggest [''a''], Suggest [''b''], Dismiss]",
        THEN spec, of 3]
    by (simp add: numeral_2_eq_2 numeral_3_eq_3)
qed

subsection \<open>Status messages\<close>

text \<open>
  C5. A \<^verbatim>\<open>status\<close> message for a registered request \<open>r\<close>: with execution state
  \<^verbatim>\<open>busy\<close> the request gets an empty active entry, whether it had one or not; with
  any other execution state (or none) the request is removed from \<^verbatim>\<open>actives\<close>, which
  leaves \<^verbatim>\<open>actives\<close> as it was when the request was not active. In both cases
  exactly one \<^verbatim>\<open>pageBreak\<close> item is appended, and nothing else changes.
\<close>

theorem status_toggles_active:
  assumes "registered state (parent_header_msg_id result)"
    and "parent_header_msg_id result = Some r"
    and "msg_type result = Some ''status''"
  shows "\<exists>state'. jupyterResponseDetected methods tu state result = Inr (Document state') \<and>
     items state' = items state @ [PageBreak] \<and>
     (if content_execution_state result = Some ''busy''
      then actives state' = (actives state)(r \<mapsto> \<lparr>errors = None\<rparr>)
      else actives state' = (actives state)(r := None) \<and>
           (actives state r = None \<longrightarrow> actives state' = actives state)) \<and>
     state' = state\<lparr>items := items state', actives := actives state'\<rparr>"
proof -
  from assms(3) have "responseTypeHandlers methods tu (msg_type result) = Some (Own status)"
    by (simp add: responseTypeHandlers_def)
  with assms(1) have "jupyterResponseDetected methods tu state result =
      map_sum id Document (status state result)"
    by (rule registered_router)
  with assms(2) show ?thesis
    by (simp add: status_def without_def addHistoryItem_def Let_def js_to_string_def
        empty_object_def fun_upd_idem)
qed

theorem status_toggles_active_witness:
  "registered session_prompt (parent_header_msg_id status_idle_5) \<and>
   parent_header_msg_id status_idle_5 = Some ''5'' \<and>
   msg_type status_idle_5 = Some ''status'' \<and>
   content_execution_state status_idle_5 \<noteq> Some ''busy'' \<and>
   actives session_prompt ''5'' = None \<and>
   (\<exists>state'. jupyterResponseDetected attached_methods plain_textUtil session_prompt
        status_idle_5 = Inr (Document state') \<and>
      items state' = items session_prompt @ [PageBreak] \<and>
      actives state' = actives session_prompt) \<and>
   registered session_prompt (parent_header_msg_id status_busy_5) \<and>
   content_execution_state status_busy_5 = Some ''busy'' \<and>
   (\<exists>state'. jupyterResponseDetected attached_methods plain_textUtil session_prompt
        status_busy_5 = Inr (Document state') \<and>
      items state' = items session_prompt @ [PageBreak] \<and>
      actives state' ''5'' = Some \<lparr>errors = None\<rparr>)"
proof -
  have idle: "registered session_prompt (parent_header_msg_id status_idle_5)"
    "parent_header_msg_id status_idle_5 = Some ''5''"
    "msg_type status_idle_5 = Some ''status''"
    "content_execution_state status_idle_5 \<noteq> Some ''busy''"
    by (simp_all add: registered_def truthy_def js_to_string_def status_idle_5_def
        status_busy_5_def envelope_def session_prompt_def session_def)
  have busy: "registered session_prompt (parent_header_msg_id status_busy_5)"
    "parent_header_msg_id status_busy_5 = Some ''5''"
    "msg_type status_busy_5 = Some ''status''"
    "content_execution_state status_busy_5 = Some ''busy''"
    by (simp_all add: registered_def truthy_def js_to_string_def
        status_busy_5_def envelope_def session_prompt_def session_def)
  have inactive: "actives session_prompt ''5'' = None"
    by (simp add: session_prompt_def session_def)
  from status_toggles_active [OF idle(1-3), of attached_methods plain_textUtil] idle(4) inactive
  have "\<exists>state'. jupyterResponseDetected attached_methods plain_textUtil session_prompt
        status_idle_5 = Inr (Document state') \<and>
      items state' = items session_prompt @ [PageBreak] \<and>
      actives state' = actives session_prompt"
    by auto
  moreover from status_toggles_active [OF busy(1-3), of attached_methods plain_textUtil] busy(4)
  have "\<exists>state'. jupyterResponseDetected attached_methods plain_textUtil session_prompt
        status_busy_5 = Inr (Document state') \<and>
      items state' = items session_prompt @ [PageBreak] \<and>
      actives state' ''5'' = Some \<lparr>errors = None\<rparr>"
    by auto
  ultimately show ?thesis
    using idle busy inactive by simp
qed

subsection \<open>Messages that are not for this viewer\<close>




subsection \<open>Emptying the transcript\<close>

lemma handler_extends_items:
  assumes "responseTypeHandlers methods tu responseType = Some (Own handler)"
    and "handler state result = Inr state'"
  shows "\<exists>suffix. items state' = items state @ suffix"
proof -
  have "display_data state result = Inr state' \<Longrightarrow> ?thesis"
    by (auto simp: display_data_def addHistoryItem_def split: option.splits)
  moreover have "error methods tu state result = Inr state' \<Longrightarrow> ?thesis"
    by (auto simp: addHistoryItem_def dest: error_result)
  moreover have "execute_input tu state result = Inr state' \<Longrightarrow> ?thesis"
    by (auto simp: execute_input_def addHistoryItem_def split: sum.splits)
  moreover have "execute_result tu state result = Inr state' \<Longrightarrow> ?thesis"
    by (auto simp: execute_result_def addHistoryItem_def split: option.splits sum.splits if_splits)
  moreover have "execute_reply state result = Inr state' \<Longrightarrow> ?thesis"
    by (auto simp: execute_reply_def)
  moreover have "status state result = Inr state' \<Longrightarrow> ?thesis"
    by (auto simp: status_def addHistoryItem_def Let_def)
  moreover have "stream tu state result = Inr state' \<Longrightarrow> ?thesis"
    by (auto simp: stream_def addHistoryItem_def split: sum.splits)
  ultimately show ?thesis
    using assms by (auto simp: responseTypeHandlers_def split: if_splits)
qed

lemma inherited_call_document:
  "inherited_call name state = Inr (Document state') \<Longrightarrow> state' = state"
  by (auto simp: inherited_call_def split: if_splits)

lemma map_sum_document:
  "map_sum id Document handled = Inr (Document state') \<Longrightarrow> handled = Inr state'"
  by (cases handled) auto

lemma router_extends_items:
  fixes state :: "('n, 'z) state_scheme"
  assumes "jupyterResponseDetected methods tu state result = Inr (Document state')"
  shows "\<exists>suffix. items state' = items state @ suffix"
proof (cases "detected methods state (parent_header_msg_id result)")
  case False
  with assms show ?thesis
    by (simp add: jupyterResponseDetected_def)
next
  case True
  with assms have called:
    "(case responseTypeHandlers methods tu (msg_type result) of
        Some (Own handler) \<Rightarrow> map_sum id Document (handler state result)
      | Some (Inherited name) \<Rightarrow> inherited_call name state
      | None \<Rightarrow> Inr (Document state)) = Inr (Document state')"
    by (simp add: jupyterResponseDetected_def)
  show ?thesis
  proof (cases "responseTypeHandlers methods tu (msg_type result) ::
      (('n, 'z) state_scheme \<Rightarrow> message \<Rightarrow> js_error + ('n, 'z) state_scheme) member option")
    case None
    with called show ?thesis by simp
  next
    case (Some member)
    show ?thesis
    proof (cases member)
      case (Own handler)
      with called Some have "handler state result = Inr state'"
        by (simp add: map_sum_document)
      with Some Own show ?thesis
        by (auto dest: handler_extends_items)
    next
      case (Inherited name)
      with called Some have "state' = state"
        by (simp add: inherited_call_document)
      then show ?thesis by simp
    qed
  qed
qed

lemma clearAutocomplete_empties:
  assumes "items state \<noteq> []" and "items (clearAutocomplete state) = []"
  shows "\<exists>matches. items state = [Autocomplete matches]"
proof -
  from assms have overlay: "item_type (last (items state)) = ''autocomplete''"
    and "butlast (items state) = []"
    by (auto simp: clearAutocomplete_def removeLastHistoryItem_def last_item_overlay
        split: if_splits)
  with assms(1) have one: "items state = [last (items state)]"
    by (metis append_butlast_last_id append_Nil)
  from overlay obtain matches where "last (items state) = Autocomplete matches"
    by (cases "last (items state)") simp_all
  with one show ?thesis
    by simp
qed

text \<open>
  C7, as stated, fails: \<^verbatim>\<open>clearAutocomplete\<close> empties a transcript that consists of
  one \<^verbatim>\<open>autocomplete\<close> item.
\<close>

theorem clearAutocomplete_empties_overlay_only:
  "items session_overlay = [Autocomplete [''print'']] \<and>
   (CLEAR_AUTOCOMPLETE :: nat action) \<noteq> CLEAR \<and>
   handle attached_methods plain_textUtil plain_execute id session_overlay
     (CLEAR_AUTOCOMPLETE :: nat action) =
     Inr (Document (session_overlay\<lparr>items := []\<rparr>))"
  by (simp add: clearAutocomplete_def removeLastHistoryItem_def last_item_def
      is_autocomplete_def session_overlay_def session_def)

text \<open>
  C7, amended. \<^verbatim>\<open>clear\<close> yields a document with an empty transcript and every other
  field as before. Of the other handlers of the reducer's table (the execution helper
  behind \<^verbatim>\<open>EXECUTING\<close> is external and left aside), one returns a document with an empty
  transcript from one with a non-empty transcript only if it is \<^verbatim>\<open>clearAutocomplete\<close>,
  run directly or by a prompt command that asks for it, and the transcript was exactly
  one \<^verbatim>\<open>autocomplete\<close> item.
\<close>

theorem clear_resets_only_items:
  "items (clear state) = [] \<and>
   actives (clear state) = actives state \<and>
   responses (clear state) = responses state \<and>
   fontSize (clear state) = fontSize state \<and>
   cwd (clear state) = cwd state \<and>
   promptLabel (clear state) = promptLabel state \<and>
   continueLabel (clear state) = continueLabel state \<and>
   state.more (clear state) = state.more state \<and>
   handle methods tu execute toNumber state CLEAR = Inr (Document (clear state)) \<and>
   (items state \<noteq> [] \<and> action \<noteq> CLEAR \<and> action \<noteq> EXECUTING \<and>
    handle methods tu execute toNumber state action = Inr (Document state') \<and>
    items state' = [] \<longrightarrow>
      (action = CLEAR_AUTOCOMPLETE \<or> action = PROMPT_VIEWER_COMMAND (Some True)) \<and>
      (\<exists>matches. items state = [Autocomplete matches]))"
proof -
  have emptied: "(action = CLEAR_AUTOCOMPLETE \<or> action = PROMPT_VIEWER_COMMAND (Some True)) \<and>
      (\<exists>matches. items state = [Autocomplete matches])"
    if nonempty: "items state \<noteq> []" and other: "action \<noteq> CLEAR" "action \<noteq> EXECUTING"
      and returned: "handle methods tu execute toNumber state action = Inr (Document state')"
      and empty: "items state' = []"
  proof (cases action)
    case (AUTOCOMPLETE matches)
    with returned empty show ?thesis
      by (auto simp: autocomplete_def addHistoryItem_def Let_def)
  next
    case CLEAR_AUTOCOMPLETE
    with returned empty have "items (clearAutocomplete state) = []"
      by auto
    with nonempty CLEAR_AUTOCOMPLETE show ?thesis
      by (simp add: clearAutocomplete_empties)
  next
    case CLEAR
    with other show ?thesis by simp
  next
    case INTERRUPTING
    with returned empty nonempty show ?thesis
      by (auto simp: interrupting_def)
  next
    case (INTERRUPTED err)
    with returned empty nonempty show ?thesis
      by (auto simp: interrupted_def addHistoryItem_def split: if_splits)
  next
    case EXECUTING
    with other show ?thesis by simp
  next
    case (EXECUTED payload)
    with returned empty nonempty show ?thesis
      by (auto simp: executed_def split: option.splits)
  next
    case RESTARTING
    with returned empty show ?thesis
      by (auto simp: restarting_def addHistoryItem_def)
  next
    case (RESTARTED err)
    with returned empty show ?thesis
      by (auto simp: restarted_def addHistoryItem_def split: if_splits)
  next
    case (JUPYTER_RESPONSE result)
    with returned have "jupyterResponseDetected methods tu state result = Inr (Document state')"
      by simp
    from router_extends_items [OF this] empty nonempty show ?thesis
      by auto
  next
    case (CHANGE_PREFERENCE key v)
    with returned empty nonempty show ?thesis
      by (auto simp: changePreference_def split: if_splits)
  next
    case (WORKING_DIRECTORY_CHANGED action_cwd)
    with returned empty nonempty show ?thesis
      by (auto simp: workingDirectoryChanged_def split: if_splits)
  next
    case (PROMPT_VIEWER_COMMAND payload)
    with returned have cmd: "promptCommand state payload = Inr state'"
      by (cases "promptCommand state payload") auto
    show ?thesis
    proof (cases "payload = Some True")
      case True
      with cmd empty have "items (clearAutocomplete state) = []"
        by (auto simp: promptCommand_def)
      with nonempty True PROMPT_VIEWER_COMMAND show ?thesis
        by (simp add: clearAutocomplete_empties)
    next
      case False
      with cmd have "state' = state"
        by (auto simp: promptCommand_def split: option.splits if_splits)
      with empty nonempty show ?thesis by simp
    qed
  qed
  have "handle methods tu execute toNumber state CLEAR = Inr (Document (clear state))"
    by simp
  with emptied show ?thesis
    by (simp add: clear_def)
qed

theorem clear_resets_only_items_witness:
  "items (clear session_page) = [] \<and>
   fontSize (clear session_page) = Some 12 \<and>
   cwd (clear session_page) = Some ''/home'' \<and>
   items session_overlay \<noteq> [] \<and>
   PROMPT_VIEWER_COMMAND (Some True) \<noteq> (CLEAR :: nat action) \<and>
   PROMPT_VIEWER_COMMAND (Some True) \<noteq> (EXECUTING :: nat action) \<and>
   handle attached_methods plain_textUtil plain_execute id session_overlay
     (PROMPT_VIEWER_COMMAND (Some True) :: nat action) =
     Inr (Document (session_overlay\<lparr>items := []\<rparr>)) \<and>
   items (session_overlay\<lparr>items := []\<rparr>) = [] \<and>
   (\<exists>matches. items session_overlay = [Autocomplete matches])"
proof -
  have page: "fontSize session_page = Some 12" "cwd session_page = Some ''/home''"
    by (simp_all add: session_page_def session_def)
  have run: "handle attached_methods plain_textUtil plain_execute id session_overlay
      (PROMPT_VIEWER_COMMAND (Some True) :: nat action) =
      Inr (Document (session_overlay\<lparr>items := []\<rparr>))"
    by (simp add: promptCommand_def clearAutocomplete_def removeLastHistoryItem_def
        last_item_def is_autocomplete_def session_overlay_def session_def)
  have nonempty: "items session_overlay \<noteq> []"
    by (simp add: session_overlay_def session_def)
  from clear_resets_only_items [of session_page attached_methods plain_textUtil plain_execute
      id CLEAR]
  have "items (clear session_page) = [] \<and> fontSize (clear session_page) = fontSize session_page \<and>
      cwd (clear session_page) = cwd session_page"
    by simp
  moreover from clear_resets_only_items [of session_overlay attached_methods plain_textUtil
      plain_execute id "PROMPT_VIEWER_COMMAND (Some True)" "session_overlay\<lparr>items := []\<rparr>"]
      run nonempty
  have "\<exists>matches. items session_overlay = [Autocomplete matches]"
    by simp
  ultimately show ?thesis
    using page run nonempty by simp
qed

subsection \<open>Prompt prefixing\<close>

lemma split_newline_not_Nil: "split_newline t \<noteq> []"
  by (induction t) (auto split: list.splits)

lemma map_enumerate_later:
  "0 < n \<Longrightarrow>
   map (\<lambda>(index, v). if index = 0 then f v else g v) (enumerate n xs) = map g xs"
  by (induction xs arbitrary: n) simp_all

lemma map_enumerate_first:
  "map (\<lambda>(index, v). if index = 0 then f v else g v) (enumerate 0 (x # xs)) = f x # map g xs"
  by (simp add: map_enumerate_later)

lemma prompt_text_prefixed:
  assumes "promptLabel state = Some prompt" and "prompt \<noteq> []"
  shows "prompt_text state (Some code) =
     Inr (Some (join_newline (prefixed_lines prompt (continueLabel state) (split_newline code))))"
proof -
  obtain first rest where lines: "split_newline code = first # rest"
    using split_newline_not_Nil [of code] by (cases "split_newline code") auto
  have continue: "(if truthy (continueLabel state) then js_to_string (continueLabel state)
      else prompt) = (case continueLabel state of None \<Rightarrow> prompt
                      | Some c \<Rightarrow> if c = [] then prompt else c)"
    by (simp add: truthy_def js_to_string_def split: option.splits)
  from assms have "prompt_text state (Some code) =
      Inr (Some (join_newline (map (\<lambda>(index, v).
        if index = 0 then prompt @ v
        else (if truthy (continueLabel state) then js_to_string (continueLabel state)
              else prompt) @ v) (enumerate 0 (split_newline code)))))"
    by (simp add: prompt_text_def truthy_def js_to_string_def cong: if_cong)
  then show ?thesis
    unfolding lines map_enumerate_first continue
    by (simp add: prefixed_lines_def)
qed

text \<open>
  The lines of a joined text are the lines that were joined, when none of them holds a
  newline: the prefixed lines are the lines of the text that is rendered.
\<close>

lemma split_newline_single: "CHR 0x0A \<notin> set line \<Longrightarrow> split_newline line = [line]"
  by (induction line) auto

lemma split_newline_line:
  "CHR 0x0A \<notin> set line \<Longrightarrow> split_newline (line @ CHR 0x0A # t) = line # split_newline t"
  by (induction line) auto

lemma split_join_newline:
  "lines \<noteq> [] \<Longrightarrow> \<forall>line \<in> set lines. CHR 0x0A \<notin> set line \<Longrightarrow>
   split_newline (join_newline lines) = lines"
  by (induction lines rule: join_newline.induct)
    (simp_all add: split_newline_single split_newline_line)

text \<open>
  C8. With a prompt label configured (a non-empty string), the text that
  \<^verbatim>\<open>execute_input\<close> hands to the renderer is \<^verbatim>\<open>content.code\<close> with every line
  prefixed: the first with the prompt label, each later one with the continuation label
  when that is set (a non-empty string) and with the prompt label otherwise. The item
  appended is a \<^verbatim>\<open>text\<close> item with the rendering of that text and the message's
  source name. With the labels \<^verbatim>\<open>">>> "\<close> and \<^verbatim>\<open>"... "\<close> and the code
  \<^verbatim>\<open>"a\nb"\<close> the text is \<^verbatim>\<open>">>> a\n... b"\<close>.
\<close>

theorem execute_input_prefixes_lines:
  assumes "promptLabel state = Some prompt" and "prompt \<noteq> []"
    and "content_code result = Some code"
  shows "prompt_text state (content_code result) =
       Inr (Some (join_newline
         (prefixed_lines prompt (continueLabel state) (split_newline code)))) \<and>
     execute_input tu state result =
       (case fromAsciiToHtml tu (Some (join_newline
           (prefixed_lines prompt (continueLabel state) (split_newline code)))) of
          Inl e \<Rightarrow> Inl e
        | Inr html \<Rightarrow> Inr (state\<lparr>items := items state @ [Text (content_name result) html]\<rparr>)) \<and>
     (prompt = ''>>> '' \<and> continueLabel state = Some ''... '' \<and>
      code = ''a\<newline>b'' \<longrightarrow>
        prompt_text state (content_code result) =
          Inr (Some ''>>> a\<newline>... b''))"
proof -
  from assms have pre: "prompt_text state (content_code result) =
      Inr (Some (join_newline
        (prefixed_lines prompt (continueLabel state) (split_newline code))))"
    by (simp add: prompt_text_prefixed)
  then have "execute_input tu state result =
      (case fromAsciiToHtml tu (Some (join_newline
          (prefixed_lines prompt (continueLabel state) (split_newline code)))) of
         Inl e \<Rightarrow> Inl e
       | Inr html \<Rightarrow> Inr (state\<lparr>items := items state @ [Text (content_name result) html]\<rparr>))"
    by (simp add: execute_input_def addHistoryItem_def split: sum.splits)
  moreover have "join_newline (prefixed_lines ''>>> '' (Some ''... '')
      (split_newline ''a\<newline>b'')) = ''>>> a\<newline>... b''"
    by (simp add: prefixed_lines_def)
  ultimately show ?thesis
    using pre by auto
qed

theorem execute_input_prefixes_lines_witness:
  "promptLabel session_prompt = Some ''>>> '' \<and>
   continueLabel session_prompt = Some ''... '' \<and>
   content_code input_two_lines = Some ''a\<newline>b'' \<and>
   prompt_text session_prompt (content_code input_two_lines) =
     Inr (Some ''>>> a\<newline>... b'') \<and>
   execute_input plain_textUtil session_prompt input_two_lines =
     Inr (session_prompt\<lparr>items := [Text (Some ''stdin'') ''>>> a\<newline>... b'']\<rparr>)"
proof -
  have labels: "promptLabel session_prompt = Some ''>>> ''"
    "continueLabel session_prompt = Some ''... ''" "items session_prompt = []"
    by (simp_all add: session_prompt_def session_def)
  have code: "content_code input_two_lines = Some ''a\<newline>b''"
    "content_name input_two_lines = Some ''stdin''"
    by (simp_all add: input_two_lines_def input_without_code_def envelope_def)
  have rendered: "fromAsciiToHtml plain_textUtil (Some t) = Inr t" for t
    by (simp add: plain_textUtil_def js_to_string_def)
  from execute_input_prefixes_lines [OF labels(1) _ code(1), of plain_textUtil]
  show ?thesis
    using labels code by (simp add: prefixed_lines_def rendered)
qed

subsection \<open>An empty traceback\<close>

text \<open>
  C9. An \<^verbatim>\<open>error\<close> message with an empty traceback, for a registered and active
  request: the handler does not throw and appends a \<^verbatim>\<open>pythonError\<close> item whose
  traceback and stack trace are empty, and a message without a traceback makes it throw;
  but the active entry has no error list afterwards, so nothing is accumulated on it.
\<close>

theorem empty_traceback_not_accumulated:
  "content_traceback error_empty_traceback = Some [] \<and>
   jupyterResponseDetected attached_methods plain_textUtil session_busy error_empty_traceback =
     Inr (Document
       (session_busy\<lparr>items := [PythonError (Some ''NameError'') (Some ''x'') [] []]\<rparr>)) \<and>
   actives session_busy ''5'' = Some \<lparr>errors = None\<rparr> \<and>
   errors_of (session_busy\<lparr>items := [PythonError (Some ''NameError'') (Some ''x'') [] []]\<rparr>)
     ''5'' = None \<and>
   content_traceback error_without_traceback = None \<and>
   jupyterResponseDetected attached_methods plain_textUtil session_busy error_without_traceback =
     Inl TypeError"
proof -
  have handler: "responseTypeHandlers attached_methods plain_textUtil (Some ''error'') =
      Some (Own (error attached_methods plain_textUtil))"
    by (simp add: responseTypeHandlers_def)
  have "registered session_busy (parent_header_msg_id error_empty_traceback)"
    by (simp add: registered_def truthy_def js_to_string_def session_busy_def session_def
        error_empty_traceback_def name_error_5_def envelope_def)
  moreover have "responseTypeHandlers attached_methods plain_textUtil
      (msg_type error_empty_traceback) = Some (Own (error attached_methods plain_textUtil))"
    using handler by (simp add: error_empty_traceback_def name_error_5_def envelope_def)
  ultimately have empty: "jupyterResponseDetected attached_methods plain_textUtil session_busy
      error_empty_traceback =
      map_sum id Document (error attached_methods plain_textUtil session_busy
        error_empty_traceback)"
    by (rule registered_router)
  have "registered session_busy (parent_header_msg_id error_without_traceback)"
    by (simp add: registered_def truthy_def js_to_string_def session_busy_def session_def
        error_without_traceback_def name_error_5_def envelope_def)
  moreover have "responseTypeHandlers attached_methods plain_textUtil
      (msg_type error_without_traceback) = Some (Own (error attached_methods plain_textUtil))"
    using handler by (simp add: error_without_traceback_def name_error_5_def envelope_def)
  ultimately have absent: "jupyterResponseDetected attached_methods plain_textUtil session_busy
      error_without_traceback =
      map_sum id Document (error attached_methods plain_textUtil session_busy
        error_without_traceback)"
    by (rule registered_router)
  have "error attached_methods plain_textUtil session_busy error_empty_traceback =
      Inr (session_busy\<lparr>items := [PythonError (Some ''NameError'') (Some ''x'') [] []]\<rparr>)"
    by (simp add: error_def Let_def addHistoryItem_def js_to_string_def session_busy_def
        session_def error_empty_traceback_def name_error_5_def envelope_def plain_textUtil_def)
  moreover have "error attached_methods plain_textUtil session_busy error_without_traceback =
      Inl TypeError"
    by (simp add: error_def Let_def error_without_traceback_def name_error_5_def envelope_def)
  ultimately show ?thesis
    using empty absent
    by (simp add: errors_of_def session_busy_def session_def error_empty_traceback_def
        error_without_traceback_def name_error_5_def envelope_def)
qed

subsection \<open>The working directory\<close>

text \<open>
  C10. \<^verbatim>\<open>workingDirectoryChanged\<close> with the empty string as directory leaves the
  document as it is, as it does without a directory; a document whose \<^verbatim>\<open>cwd\<close> is the
  empty string after the command had it before.
\<close>

theorem workingDirectoryChanged_empty:
  "workingDirectoryChanged state (Some []) = state \<and>
   workingDirectoryChanged state (Some []) = workingDirectoryChanged state None \<and>
   (cwd (workingDirectoryChanged state action_cwd) = Some [] \<longrightarrow> cwd state = Some [])"
  by (auto simp: workingDirectoryChanged_def truthy_def split: option.splits)

theorem workingDirectoryChanged_empty_witness:
  "workingDirectoryChanged session_page (Some []) = session_page \<and>
   cwd (workingDirectoryChanged session_page (Some [])) = Some ''/home'' \<and>
   cwd (workingDirectoryChanged session_no_cwd (Some ''/tmp'')) = Some ''/tmp'' \<and>
   cwd (workingDirectoryChanged session_no_cwd (Some [])) = Some [] \<and>
   cwd session_no_cwd = Some []"
proof -
  have "cwd session_page = Some ''/home''"
    by (simp add: session_page_def session_def)
  moreover have "cwd (workingDirectoryChanged session_no_cwd (Some ''/tmp'')) = Some ''/tmp''"
    by (simp add: workingDirectoryChanged_def truthy_def)
  moreover have "cwd (workingDirectoryChanged session_no_cwd (Some [])) = Some []"
    by (simp add: workingDirectoryChanged_def truthy_def session_no_cwd_def)
  ultimately show ?thesis
    using workingDirectoryChanged_empty [of session_page "Some []"]
      workingDirectoryChanged_empty [of session_no_cwd "Some []"]
    by simp
qed

end
